theory Spec2Isabelle
  imports
    Complex_Main
    "HOL-Library.Word"
    "HOL-Library.Signed_Division"
    "HOL-Library.Multiset"
begin

unbundle bit_operations_syntax

chapter \<open>The model\<close>

section \<open>Machine integers\<close>

text \<open>
  The C++ types of \<^verbatim>\<open>chainparams.cpp\<close>. \<^verbatim>\<open>int64_t\<close> is a 64-bit word read in two's
  complement: \<open>*\<close> and \<open>+\<close> wrap around, the comparison \<^verbatim>\<open>denom > 0\<close> is the signed
  one (\<open><s\<close>), and \<^verbatim>\<open>%\<close> and \<^verbatim>\<open>/\<close> truncate towards zero (\<open>smod\<close> and \<open>sdiv\<close> on
  the signed values). Signed overflow is undefined in C++; the wrap-around is what the
  compiled code does, and every theorem below that speaks about a numeric value carries
  the bound that excludes it.
\<close>

type_synonym int64_t = "64 word"
type_synonym int32_t = "32 word"
type_synonym uint32_t = "32 word"
type_synonym byte = "8 word"

definition int64_rem :: "int64_t \<Rightarrow> int64_t \<Rightarrow> int64_t" where
  "int64_rem a b = word_of_int (sint a smod sint b)"

definition int64_quot :: "int64_t \<Rightarrow> int64_t \<Rightarrow> int64_t" where
  "int64_quot a b = word_of_int (sint a sdiv sint b)"

section \<open>Errors\<close>

text \<open>
  Every \<^verbatim>\<open>assert\<close> of the source is a branch of the model: a failed assertion aborts the
  process, which is the \<open>Inl\<close> result naming the assertion.
\<close>

datatype error =
    Assert_denom_positive        \<comment> \<open>\<^verbatim>\<open>assert (denom > 0)\<close>\<close>
  | Assert_numer_divisible       \<comment> \<open>\<^verbatim>\<open>assert (numer % denom == 0)\<close>\<close>
  | Assert_nonce_below_max       \<comment> \<open>\<^verbatim>\<open>assert (fakeHeader.nNonce < max)\<close>\<close>
  | Assert_hashGenesisBlock      \<comment> \<open>\<^verbatim>\<open>assert(consensus.hashGenesisBlock == ...)\<close>\<close>
  | Assert_hashMerkleRoot        \<comment> \<open>\<^verbatim>\<open>assert(genesis.hashMerkleRoot == ...)\<close>\<close>

section \<open>AvgTargetSpacing\<close>

datatype PowAlgo = SHA256D | NEOSCRYPT

text \<open>
  \<^verbatim>\<open>Consensus::Params\<close> as far as \<^verbatim>\<open>AvgTargetSpacing\<close> reads it: the virtual
  \<^verbatim>\<open>params.rules->GetTargetSpacing (algo, height)\<close>, whose implementations live in
  \<^verbatim>\<open>consensus/params.h\<close>, is a field of the record. The height is an \<^verbatim>\<open>unsigned\<close>.
\<close>

record Consensus_Params =
  GetTargetSpacing :: "PowAlgo \<Rightarrow> uint32_t \<Rightarrow> int64_t"

text \<open>
  The body of the \<^verbatim>\<open>for\<close> loop, run over the spacings of the algorithms in iteration
  order, on the pair \<open>(numer, denom)\<close>:
  \<^verbatim>\<open>denom *= spacing; denom += numer; numer *= spacing;\<close>
\<close>

fun accumulate :: "int64_t list \<Rightarrow> int64_t \<times> int64_t \<Rightarrow> int64_t \<times> int64_t" where
  "accumulate [] (numer, denom) = (numer, denom)"
| "accumulate (spacing # rest) (numer, denom) =
     (let denom1 = denom * spacing;
          denom2 = denom1 + numer;
          numer1 = numer * spacing
      in accumulate rest (numer1, denom2))"

text \<open>
  The function on a list of spacings: \<^verbatim>\<open>numer = 1\<close>, \<^verbatim>\<open>denom = 0\<close>, the loop, the two
  assertions and \<^verbatim>\<open>return numer / denom\<close>.
\<close>

definition AvgTargetSpacing_of :: "int64_t list \<Rightarrow> error + int64_t" where
  "AvgTargetSpacing_of spacings =
     (case accumulate spacings (1, 0) of
        (numer, denom) \<Rightarrow>
          if \<not> (0 <s denom) then Inl Assert_denom_positive
          else if int64_rem numer denom \<noteq> 0 then Inl Assert_numer_divisible
          else Inr (int64_quot numer denom))"

text \<open>
  \<^verbatim>\<open>AvgTargetSpacing (params, height)\<close>: the loop runs over the initializer list
  \<^verbatim>\<open>{PowAlgo::SHA256D, PowAlgo::NEOSCRYPT}\<close>, in this order.
\<close>

definition AvgTargetSpacing_algos :: "PowAlgo list" where
  "AvgTargetSpacing_algos = [SHA256D, NEOSCRYPT]"

definition AvgTargetSpacing :: "Consensus_Params \<Rightarrow> uint32_t \<Rightarrow> error + int64_t" where
  "AvgTargetSpacing params height =
     AvgTargetSpacing_of
       (map (\<lambda>algo. GetTargetSpacing params algo height) AvgTargetSpacing_algos)"

subsection \<open>The closed form of the specification\<close>

text \<open>
  The specification's formula, on mathematical integers: the numerator is the product
  of all spacings (\<open>prod_list\<close>), the denominator \<open>denom_spec\<close> is the sum, over each
  position \<open>i\<close>, of the product of the spacings at all other positions.
  \<open>target_spacings\<close> are the values \<open>s\<^sub>1, \<dots>, s\<^sub>n\<close> that \<^verbatim>\<open>GetTargetSpacing\<close> returns for the
  algorithms of the loop, read as signed integers.
\<close>

definition denom_spec :: "'a::comm_semiring_1 list \<Rightarrow> 'a" where
  "denom_spec ss = (\<Sum>i\<leftarrow>[0..<length ss]. prod_list (take i ss @ drop (Suc i) ss))"

definition target_spacings :: "Consensus_Params \<Rightarrow> uint32_t \<Rightarrow> int list" where
  "target_spacings params height =
     map (\<lambda>algo. sint (GetTargetSpacing params algo height)) AvgTargetSpacing_algos"

subsection \<open>Concrete rule sets\<close>

text \<open>Rule sets used at concrete inputs: spacings 2 and 3, 120 and 40, and one spacing for both.\<close>

fun spacing_2_3 :: "PowAlgo \<Rightarrow> uint32_t \<Rightarrow> int64_t" where
  "spacing_2_3 SHA256D height = 2"
| "spacing_2_3 NEOSCRYPT height = 3"

fun spacing_120_40 :: "PowAlgo \<Rightarrow> uint32_t \<Rightarrow> int64_t" where
  "spacing_120_40 SHA256D height = 120"
| "spacing_120_40 NEOSCRYPT height = 40"

definition same_spacing :: "int64_t \<Rightarrow> PowAlgo \<Rightarrow> uint32_t \<Rightarrow> int64_t" where
  "same_spacing s algo height = s"

section \<open>The genesis block\<close>

subsection \<open>Data\<close>

text \<open>
  \<^verbatim>\<open>uint256\<close> is the 256-bit number that its hexadecimal literal denotes; the null hash is
  \<open>0\<close>. \<^verbatim>\<open>uint160\<close> enters \<^verbatim>\<open>CreateGenesisBlock\<close> only through the byte range
  \<^verbatim>\<open>premineP2sh.begin () .. premineP2sh.end ()\<close>, so it is that list of bytes.

  A \<^verbatim>\<open>CScript\<close> is the sequence of things pushed into it with \<^verbatim>\<open><<\<close>: opcodes and data
  vectors. Its byte encoding belongs to \<^verbatim>\<open>script/script.h\<close> and is not needed here.
\<close>

type_synonym uint256 = "256 word"
type_synonym uint160 = "byte list"
type_synonym CAmount = int64_t

datatype opcodetype = OP_HASH160 | OP_EQUAL

datatype script_item = Opcode opcodetype | PushData "byte list"

type_synonym CScript = "script_item list"

definition CScript_op :: "CScript \<Rightarrow> opcodetype \<Rightarrow> CScript" where
  "CScript_op script opcode = script @ [Opcode opcode]"

definition CScript_data :: "CScript \<Rightarrow> byte list \<Rightarrow> CScript" where
  "CScript_data script b = script @ [PushData b]"

text \<open>
  The transaction, with the fields that \<^verbatim>\<open>CreateGenesisBlock\<close> assigns. The fields it
  leaves at their defaults (previous output, sequence number, lock time) are the same in
  every genesis transaction.
\<close>

record CTxIn =
  scriptSig :: CScript

record CTxOut =
  nValue :: CAmount
  scriptPubKey :: CScript

record CMutableTransaction =
  version :: int32_t
  vin :: "CTxIn list"
  vout :: "CTxOut list"

text \<open>
  The primary header (\<^verbatim>\<open>CPureBlockHeader\<close>), the proof-of-work data attached to a block
  (\<^verbatim>\<open>PowData\<close>: the core algorithm, the difficulty bits and the fake header, each with
  its setter), and the block. The algorithm and the fake header of a fresh \<^verbatim>\<open>PowData\<close>
  are unset.
\<close>

record CPureBlockHeader =
  nVersion :: int32_t
  hashPrevBlock :: uint256
  hashMerkleRoot :: uint256
  nTime :: uint32_t
  nBits :: uint32_t
  nNonce :: uint32_t

record PowData =
  algo :: "PowAlgo option"
  bits :: uint32_t
  fakeHeader :: "CPureBlockHeader option"

record CBlock = CPureBlockHeader +
  pow :: PowData
  vtx :: "CMutableTransaction list"

text \<open>Default-constructed objects: all fields null, no transactions.\<close>

definition CPureBlockHeader_null :: CPureBlockHeader where
  "CPureBlockHeader_null =
     \<lparr>nVersion = 0, hashPrevBlock = 0, hashMerkleRoot = 0, nTime = 0, nBits = 0, nNonce = 0\<rparr>"

definition PowData_null :: PowData where
  "PowData_null = \<lparr>algo = None, bits = 0, fakeHeader = None\<rparr>"

definition CBlock_null :: CBlock where
  "CBlock_null =
     \<lparr>nVersion = 0, hashPrevBlock = 0, hashMerkleRoot = 0, nTime = 0, nBits = 0, nNonce = 0,
      pow = PowData_null, vtx = []\<rparr>"

subsection \<open>External collaborators\<close>

text \<open>
  What \<^verbatim>\<open>chainparams.cpp\<close> calls and does not define is a parameter of the model, so
  that every theorem holds for whatever these functions compute. The record is the
  environment of one invocation: besides the functions it holds the clock that
  \<^verbatim>\<open>GetTime ()\<close> reads, so that a function of the model that takes the environment can
  depend on the time of the call, and two invocations are two environments:
  \<^item> \<open>COIN\<close>: the constant of \<^verbatim>\<open>consensus/amount.h\<close>;
  \<^item> \<open>uint160S\<close>: the parser of a hexadecimal string into a \<^verbatim>\<open>uint160\<close>;
  \<^item> \<open>TxHash\<close>: the hash of a transaction;
  \<^item> \<open>MerkleRoot_other\<close>: the merkle root of a list of leaves that is not a single leaf;
  \<^item> \<open>HeaderHash\<close>: the hash of a serialized header;
  \<^item> \<open>HashWriter\<close>: \<^verbatim>\<open>(HashWriter{} << v).GetHash()\<close> of a byte vector;
  \<^item> \<open>uint256_byte h i\<close>: the byte \<^verbatim>\<open>h.begin()[i]\<close>;
  \<^item> \<open>initFakeHeader\<close>: the fake header that \<^verbatim>\<open>PowData::initFakeHeader\<close> creates;
  \<^item> \<open>checkProofOfWork\<close>: \<^verbatim>\<open>PowData::checkProofOfWork\<close>;
  \<^item> \<open>GetTime\<close>: what \<^verbatim>\<open>GetTime ()\<close> returns, the clock at the time of the call.
\<close>

record externals =
  COIN :: CAmount
  uint160S :: "string \<Rightarrow> uint160"
  TxHash :: "CMutableTransaction \<Rightarrow> uint256"
  MerkleRoot_other :: "uint256 list \<Rightarrow> uint256"
  HeaderHash :: "CPureBlockHeader \<Rightarrow> uint256"
  HashWriter :: "byte list \<Rightarrow> uint256"
  uint256_byte :: "uint256 \<Rightarrow> nat \<Rightarrow> byte"
  initFakeHeader :: "CBlock \<Rightarrow> CPureBlockHeader"
  checkProofOfWork :: "PowData \<Rightarrow> CPureBlockHeader \<Rightarrow> Consensus_Params \<Rightarrow> bool"
  GetTime :: int64_t

text \<open>
  Modelled from the spec: \<^verbatim>\<open>GetHash\<close> of a block (\<^verbatim>\<open>primitives/block.h\<close> and
  \<^verbatim>\<open>primitives/pureheader.h\<close> are not among the sources). The specification lists the
  \<^verbatim>\<open>Block/header hash function: deterministic hash of a serialized header\<close>: the hash
  of a block is the hash of its primary header, the six fields of \<^verbatim>\<open>CPureBlockHeader\<close>.
\<close>

definition GetHash :: "externals \<Rightarrow> CBlock \<Rightarrow> uint256" where
  "GetHash ext block = HeaderHash ext (CPureBlockHeader.truncate block)"

text \<open>
  Modelled from the spec: \<^verbatim>\<open>BlockMerkleRoot\<close> (\<^verbatim>\<open>consensus/merkle.h\<close> is not among the
  sources). The specification says that the merkle root is a deterministic hash of the
  ordered sequence of transactions and that the
  \<^verbatim>\<open>merkle root of a one-leaf tree equals the leaf's hash, by definition/convention, no further hashing\<close>.
  The leaves are the transaction hashes; any other number of leaves is left to the
  parameter.
\<close>

definition BlockMerkleRoot :: "externals \<Rightarrow> CBlock \<Rightarrow> uint256" where
  "BlockMerkleRoot ext block =
     (case map (TxHash ext) (vtx block) of
        [leaf] \<Rightarrow> leaf
      | leaves \<Rightarrow> MerkleRoot_other ext leaves)"

subsection \<open>CreateGenesisBlock\<close>

definition premineAmount :: "externals \<Rightarrow> CAmount" where
  "premineAmount ext = 222222222 * COIN ext"

text \<open>
  The overload that takes the two scripts. The statements of the source are the lines of
  the \<open>let\<close>, in order; \<^verbatim>\<open>genesis.vtx.push_back\<close> appends to the transactions, and
  \<^verbatim>\<open>hashPrevBlock.SetNull ()\<close> stores the null hash.
\<close>

definition CreateGenesisBlock_scripts ::
  "externals \<Rightarrow> CScript \<Rightarrow> CScript \<Rightarrow> uint32_t \<Rightarrow> uint32_t \<Rightarrow> uint32_t \<Rightarrow> int32_t \<Rightarrow> CAmount
     \<Rightarrow> CBlock" where
  "CreateGenesisBlock_scripts ext genesisInputScript genesisOutputScript
       nTime' nNonce' nBits' nVersion' genesisReward =
     (let txNew = \<lparr>version = 1,
                   vin = [\<lparr>scriptSig = genesisInputScript\<rparr>],
                   vout = [\<lparr>nValue = genesisReward, scriptPubKey = genesisOutputScript\<rparr>]\<rparr>;
          genesis = CBlock_null;
          genesis = genesis\<lparr>nTime := nTime'\<rparr>;
          genesis = genesis\<lparr>nBits := 0\<rparr>;
          genesis = genesis\<lparr>nNonce := 0\<rparr>;
          genesis = genesis\<lparr>nVersion := nVersion'\<rparr>;
          genesis = genesis\<lparr>vtx := vtx genesis @ [txNew]\<rparr>;
          genesis = genesis\<lparr>hashPrevBlock := 0\<rparr>;
          genesis = genesis\<lparr>hashMerkleRoot := BlockMerkleRoot ext genesis\<rparr>;
          fakeHeader' = CPureBlockHeader_null;
          fakeHeader' = fakeHeader'\<lparr>nNonce := nNonce'\<rparr>;
          fakeHeader' = fakeHeader'\<lparr>hashMerkleRoot := GetHash ext genesis\<rparr>;
          genesis = genesis\<lparr>pow := (pow genesis)\<lparr>algo := Some NEOSCRYPT\<rparr>\<rparr>;
          genesis = genesis\<lparr>pow := (pow genesis)\<lparr>bits := nBits'\<rparr>\<rparr>;
          genesis = genesis\<lparr>pow := (pow genesis)\<lparr>fakeHeader := Some fakeHeader'\<rparr>\<rparr>
      in genesis)"

text \<open>
  The overload that the parameter sets call: the timestamp string becomes the data of the
  input script, the bytes of the premine hash are reversed and wrapped in
  \<^verbatim>\<open>OP_HASH160 <hash> OP_EQUAL\<close>.
\<close>

definition CreateGenesisBlock ::
  "externals \<Rightarrow> uint32_t \<Rightarrow> uint32_t \<Rightarrow> uint32_t \<Rightarrow> string \<Rightarrow> uint160 \<Rightarrow> CBlock" where
  "CreateGenesisBlock ext nTime' nNonce' nBits' timestamp premineP2sh =
     (let timestampData = map (\<lambda>c. word_of_nat (of_char c)) timestamp;
          genesisInput = CScript_data [] timestampData;
          scriptHash = premineP2sh;
          scriptHash = rev scriptHash;
          genesisOutput = CScript_op (CScript_data (CScript_op [] OP_HASH160) scriptHash) OP_EQUAL;
          nVersion' = 1
      in CreateGenesisBlock_scripts ext genesisInput genesisOutput nTime' nNonce' nBits'
           nVersion' (premineAmount ext))"

section \<open>The network parameter sets\<close>

text \<open>
  The constructors of the version of the file that defines \<^verbatim>\<open>GetNetworkForMagic\<close> (the one
  that includes \<^verbatim>\<open>kernel/chainparams.h\<close>), as far as the message start, the pruning height and the
  genesis block go: each builds its genesis block and asserts its hash and its merkle
  root against the literals. The other fields (deployments, seeds, address prefixes,
  checkpoints) are constant tables that neither assertion nor \<^verbatim>\<open>GetNetworkForMagic\<close> reads.
\<close>

definition pszTimestampTestnet :: string where
  "pszTimestampTestnet = ''Decentralised Autonomous Worlds''"

definition pszTimestampMainnet :: string where
  "pszTimestampMainnet =
     ''HUC #2,351,800: '' @ ''8730ea650d24cd01692a5adb943e7b8720b0ba8a4c64ffcdf5a95d9b3fb57b7f''"

definition hexPremineAddressRegtest :: string where
  "hexPremineAddressRegtest = ''2b6defe41aa3aa47795b702c893c73e716d485ab''"

definition hexPremineAddressMainnet :: string where
  "hexPremineAddressMainnet = ''8cb1c236d34c74221fe4163bbba739b52e95f484''"

datatype ChainType = MAIN | TESTNET | SIGNET | REGTEST | TESTNET4

type_synonym MessageStartChars = "byte \<times> byte \<times> byte \<times> byte"

record CChainParams =
  m_chain_type :: ChainType
  pchMessageStart :: MessageStartChars
  nPruneAfterHeight :: nat
  genesis :: CBlock
  hashGenesisBlock :: uint256

text \<open>The options as far as the constructors model them; \<^verbatim>\<open>{}\<close> is the default of each.\<close>

record SigNetOptions =
  challenge :: "byte list option"

record RegTestOptions =
  fastprune :: bool

definition CMainParams :: "externals \<Rightarrow> error + CChainParams" where
  "CMainParams ext =
     (let genesis' = CreateGenesisBlock ext 1531470713 482087 0x1e0ffff0
                       pszTimestampMainnet (uint160S ext hexPremineAddressMainnet);
          hashGenesisBlock' = GetHash ext genesis'
      in if hashGenesisBlock'
              \<noteq> 0xe5062d76e5f50c42f493826ac9920b63a8def2626fd70a5cec707ec47a4c4651
         then Inl Assert_hashGenesisBlock
         else if hashMerkleRoot genesis'
              \<noteq> 0x0827901b75ab43978c3cf20a78baf040faeb0e2eeff3a2c58ab6521a6d46f8fd
         then Inl Assert_hashMerkleRoot
         else Inr \<lparr>m_chain_type = MAIN,
                   pchMessageStart = (0xcc, 0xbe, 0xb4, 0xfe),
                   nPruneAfterHeight = 100000,
                   genesis = genesis',
                   hashGenesisBlock = hashGenesisBlock'\<rparr>)"

definition CTestNetParams :: "externals \<Rightarrow> error + CChainParams" where
  "CTestNetParams ext =
     (let genesis' = CreateGenesisBlock ext 1530623291 343829 0x1e0ffff0
                       pszTimestampTestnet (uint160S ext hexPremineAddressMainnet);
          hashGenesisBlock' = GetHash ext genesis'
      in if hashGenesisBlock'
              \<noteq> 0x5195fc01d0e23d70d1f929f21ec55f47e1c6ea1e66fae98ee44cbbc994509bba
         then Inl Assert_hashGenesisBlock
         else if hashMerkleRoot genesis'
              \<noteq> 0x59d1a23342282179e810dff9238a97d07bd8602e3a1ba0efb5f519008541f257
         then Inl Assert_hashMerkleRoot
         else Inr \<lparr>m_chain_type = TESTNET,
                   pchMessageStart = (0xcc, 0xbf, 0xb5, 0xfe),
                   nPruneAfterHeight = 1000,
                   genesis = genesis',
                   hashGenesisBlock = hashGenesisBlock'\<rparr>)"

definition CTestNet4Params :: "externals \<Rightarrow> error + CChainParams" where
  "CTestNet4Params ext =
     (let genesis' = CreateGenesisBlock ext 1530623291 343829 0x1e0ffff0
                       pszTimestampTestnet (uint160S ext hexPremineAddressMainnet);
          hashGenesisBlock' = GetHash ext genesis'
      in if hashGenesisBlock'
              \<noteq> 0x5195fc01d0e23d70d1f929f21ec55f47e1c6ea1e66fae98ee44cbbc994509bba
         then Inl Assert_hashGenesisBlock
         else if hashMerkleRoot genesis'
              \<noteq> 0x59d1a23342282179e810dff9238a97d07bd8602e3a1ba0efb5f519008541f257
         then Inl Assert_hashMerkleRoot
         else Inr \<lparr>m_chain_type = TESTNET4,
                   pchMessageStart = (0x1c, 0x16, 0x3f, 0x28),
                   nPruneAfterHeight = 1000,
                   genesis = genesis',
                   hashGenesisBlock = hashGenesisBlock'\<rparr>)"

text \<open>
  Signet: the challenge is the default script unless the options give one, and the message
  start is the first four bytes of the hash of the challenge.
\<close>

definition signet_default_challenge :: "byte list" where
  "signet_default_challenge =
     [0x51, 0x21, 0x03, 0xad, 0x5e, 0x0e, 0xda, 0xd1, 0x8c, 0xb1, 0xf0, 0xfc,
      0x0d, 0x28, 0xa3, 0xd4, 0xf1, 0xf3, 0xe4, 0x45, 0x64, 0x03, 0x37, 0x48,
      0x9a, 0xbb, 0x10, 0x40, 0x4f, 0x2d, 0x1e, 0x08, 0x6b, 0xe4, 0x30, 0x21,
      0x03, 0x59, 0xef, 0x50, 0x21, 0x96, 0x4f, 0xe2, 0x2d, 0x6f, 0x8e, 0x05,
      0xb2, 0x46, 0x3c, 0x95, 0x40, 0xce, 0x96, 0x88, 0x3f, 0xe3, 0xb2, 0x78,
      0x76, 0x0f, 0x04, 0x8f, 0x51, 0x89, 0xf2, 0xe6, 0xc4, 0x52, 0xae]"

definition SigNetParams :: "externals \<Rightarrow> SigNetOptions \<Rightarrow> error + CChainParams" where
  "SigNetParams ext options =
     (let bin = (case challenge options of
                   None \<Rightarrow> signet_default_challenge
                 | Some c \<Rightarrow> c);
          signet_challenge = bin;
          hash = HashWriter ext signet_challenge;
          pchMessageStart' = (uint256_byte ext hash 0, uint256_byte ext hash 1,
                              uint256_byte ext hash 2, uint256_byte ext hash 3);
          genesis' = CreateGenesisBlock ext 1601286749 534547 0x1e0ffff0
                       pszTimestampTestnet (uint160S ext hexPremineAddressMainnet);
          hashGenesisBlock' = GetHash ext genesis'
      in if hashGenesisBlock'
              \<noteq> 0x8d5223e215a03970bb3d3bc511a0d9a003e03cbc973289611ca6e0e617f57ccf
         then Inl Assert_hashGenesisBlock
         else if hashMerkleRoot genesis'
              \<noteq> 0x59d1a23342282179e810dff9238a97d07bd8602e3a1ba0efb5f519008541f257
         then Inl Assert_hashMerkleRoot
         else Inr \<lparr>m_chain_type = SIGNET,
                   pchMessageStart = pchMessageStart',
                   nPruneAfterHeight = 1000,
                   genesis = genesis',
                   hashGenesisBlock = hashGenesisBlock'\<rparr>)"

definition CRegTestParams :: "externals \<Rightarrow> RegTestOptions \<Rightarrow> error + CChainParams" where
  "CRegTestParams ext opts =
     (let genesis' = CreateGenesisBlock ext 1300000000 0 0x207fffff
                       pszTimestampTestnet (uint160S ext hexPremineAddressRegtest);
          hashGenesisBlock' = GetHash ext genesis'
      in if hashGenesisBlock'
              \<noteq> 0x6f750b36d22f1dc3d0a6e483af45301022646dfc3b3ba2187865f5a7d6d83ab1
         then Inl Assert_hashGenesisBlock
         else if hashMerkleRoot genesis'
              \<noteq> 0x9f96a4c275320aaf6386652444be5baade11e2f9f40221a98b968ae5c32dd55a
         then Inl Assert_hashMerkleRoot
         else Inr \<lparr>m_chain_type = REGTEST,
                   pchMessageStart = (0xcc, 0xbf, 0xb5, 0xda),
                   nPruneAfterHeight = (if fastprune opts then 100 else 1000),
                   genesis = genesis',
                   hashGenesisBlock = hashGenesisBlock'\<rparr>)"

definition SigNetOptions_default :: SigNetOptions where
  "SigNetOptions_default = \<lparr>challenge = None\<rparr>"

definition RegTestOptions_default :: RegTestOptions where
  "RegTestOptions_default = \<lparr>fastprune = False\<rparr>"

text \<open>
  \<^verbatim>\<open>GetNetworkForMagic\<close> constructs the five parameter sets, which runs their assertions,
  and compares the message with each message start in turn. \<^verbatim>\<open>std::nullopt\<close> is \<open>None\<close>.
\<close>

definition GetNetworkForMagic :: "externals \<Rightarrow> MessageStartChars \<Rightarrow> error + ChainType option" where
  "GetNetworkForMagic ext message =
     (case CMainParams ext of Inl e \<Rightarrow> Inl e | Inr mainnet \<Rightarrow>
      case CTestNetParams ext of Inl e \<Rightarrow> Inl e | Inr testnet \<Rightarrow>
      case CTestNet4Params ext of Inl e \<Rightarrow> Inl e | Inr testnet4 \<Rightarrow>
      case CRegTestParams ext RegTestOptions_default of Inl e \<Rightarrow> Inl e | Inr regtest \<Rightarrow>
      case SigNetParams ext SigNetOptions_default of Inl e \<Rightarrow> Inl e | Inr signet \<Rightarrow>
        (let mainnet_msg = pchMessageStart mainnet;
             testnet_msg = pchMessageStart testnet;
             testnet4_msg = pchMessageStart testnet4;
             regtest_msg = pchMessageStart regtest;
             signet_msg = pchMessageStart signet
         in if message = mainnet_msg then Inr (Some MAIN)
            else if message = testnet_msg then Inr (Some TESTNET)
            else if message = testnet4_msg then Inr (Some TESTNET4)
            else if message = regtest_msg then Inr (Some REGTEST)
            else if message = signet_msg then Inr (Some SIGNET)
            else Inr None))"

subsection \<open>The first match, as the specification of the lookup\<close>

text \<open>
  The chain type of the first pair of a list whose message start equals the message.
\<close>

fun first_match :: "MessageStartChars \<Rightarrow> (ChainType \<times> MessageStartChars) list \<Rightarrow> ChainType option" where
  "first_match message [] = None"
| "first_match message ((chain, magic) # rest) =
     (if message = magic then Some chain else first_match message rest)"

section \<open>MineGenesisBlock\<close>

text \<open>
  What the function prints, line by line (the numbers and hashes, not their rendering).
\<close>

datatype stdout_line =
    Line_Mining
  | Line_nNonce uint32_t
  | Line_Found uint32_t
  | Line_nTime uint32_t
  | Line_BlockHash uint256
  | Line_MerkleRoot uint256

text \<open>
  The \<^verbatim>\<open>while\<close> loop on the fake header, with the proof-of-work check as a predicate on
  it: the check, then the assertion, then the increment and the progress line. The loop
  ends because the nonce grows towards the maximum, which the assertion never lets it
  pass.
\<close>

function MineGenesisBlock_loop ::
  "(CPureBlockHeader \<Rightarrow> bool) \<Rightarrow> CPureBlockHeader \<Rightarrow> stdout_line list
     \<Rightarrow> error + (CPureBlockHeader \<times> stdout_line list)" where
  "MineGenesisBlock_loop check fakeHeader' out =
     (if check fakeHeader' then Inr (fakeHeader', out)
      else if \<not> (nNonce fakeHeader' < 0xFFFFFFFF) then Inl Assert_nonce_below_max
      else
        (let fakeHeader' = fakeHeader'\<lparr>nNonce := nNonce fakeHeader' + 1\<rparr>;
             out = (if unat (nNonce fakeHeader') mod 1000 = 0
                    then out @ [Line_nNonce (nNonce fakeHeader')] else out)
         in MineGenesisBlock_loop check fakeHeader' out))"
  by pat_completeness auto
termination
proof (relation "measure (\<lambda>(check, h, out). 4294967295 - unat (nNonce h))")
  show "wf (measure (\<lambda>(check, h, out). 4294967295 - unat (nNonce h)))"
    by simp
next
  fix check :: "CPureBlockHeader \<Rightarrow> bool" and fakeHeader' :: CPureBlockHeader
    and out x :: "stdout_line list" and xa :: CPureBlockHeader
  assume lt: "\<not> \<not> nNonce fakeHeader' < 0xFFFFFFFF"
    and xa: "xa = fakeHeader'\<lparr>nNonce := nNonce fakeHeader' + 1\<rparr>"
  have "unat (nNonce fakeHeader') < 4294967295"
    using lt by (simp add: word_less_nat_alt)
  then have "unat (nNonce fakeHeader' + 1) = unat (nNonce fakeHeader') + 1"
    by (simp add: unat_word_ariths)
  with \<open>unat (nNonce fakeHeader') < 4294967295\<close>
  show "((check, xa, x), (check, fakeHeader', out))
          \<in> measure (\<lambda>(check, h, out). 4294967295 - unat (nNonce h))"
    using xa by simp
qed

declare MineGenesisBlock_loop.simps [simp del]

text \<open>
  \<^verbatim>\<open>MineGenesisBlock\<close>: \<^verbatim>\<open>GetTime ()\<close> reads the clock of the environment, the fake header is part of
  \<^verbatim>\<open>block.pow\<close>, and \<^verbatim>\<open>exit (EXIT_SUCCESS)\<close> is the \<open>Inr\<close> result with the block and
  the lines printed. What was printed before a failed assertion is not kept.
\<close>

definition MineGenesisBlock ::
  "externals \<Rightarrow> CBlock \<Rightarrow> Consensus_Params \<Rightarrow> error + (CBlock \<times> stdout_line list)" where
  "MineGenesisBlock ext block consensus =
     (let out = [Line_Mining];
          block = block\<lparr>nTime := ucast (GetTime ext)\<rparr>;
          fakeHeader0 = initFakeHeader ext block;
          block = block\<lparr>pow := (pow block)\<lparr>fakeHeader := Some fakeHeader0\<rparr>\<rparr>
      in case MineGenesisBlock_loop
                (\<lambda>h. checkProofOfWork ext ((pow block)\<lparr>fakeHeader := Some h\<rparr>) h consensus)
                fakeHeader0 out of
           Inl e \<Rightarrow> Inl e
         | Inr (fakeHeader1, out) \<Rightarrow>
             (let block = block\<lparr>pow := (pow block)\<lparr>fakeHeader := Some fakeHeader1\<rparr>\<rparr>;
                  out = out @ [Line_Found (nNonce fakeHeader1)];
                  out = out @ [Line_nTime (nTime block)];
                  out = out @ [Line_BlockHash (GetHash ext block)];
                  out = out @ [Line_MerkleRoot (hashMerkleRoot block)]
              in Inr (block, out)))"

section \<open>Collaborators for concrete inputs\<close>

text \<open>
  A concrete set of collaborators under which the five constructors succeed, to run the
  model at concrete inputs: table look-ups that return the literals of the source for the
  five genesis blocks. \<open>nonce_is k\<close> is a proof-of-work check that only the nonce \<open>k\<close>
  passes.
\<close>

definition fixture_uint160S :: "string \<Rightarrow> uint160" where
  "fixture_uint160S s =
     (if s = hexPremineAddressRegtest
      then [0xab, 0x85, 0xd4, 0x16, 0xe7, 0x73, 0x3c, 0x89, 0x2c, 0x70,
            0x5b, 0x79, 0x47, 0xaa, 0xa3, 0x1a, 0xe4, 0xef, 0x6d, 0x2b]
      else [0x84, 0xf4, 0x95, 0x2e, 0xb5, 0x39, 0xa7, 0xbb, 0x3b, 0x16,
            0xe4, 0x1f, 0x22, 0x74, 0x4c, 0xd3, 0x36, 0xc2, 0xb1, 0x8c])"

definition fixture_TxHash :: "CMutableTransaction \<Rightarrow> uint256" where
  "fixture_TxHash tx =
     (if map scriptSig (vin tx) = [[PushData (map (\<lambda>c. word_of_nat (of_char c)) pszTimestampMainnet)]]
      then 0x0827901b75ab43978c3cf20a78baf040faeb0e2eeff3a2c58ab6521a6d46f8fd
      else if map scriptPubKey (vout tx)
                = [[Opcode OP_HASH160, PushData (rev (fixture_uint160S hexPremineAddressRegtest)),
                    Opcode OP_EQUAL]]
      then 0x9f96a4c275320aaf6386652444be5baade11e2f9f40221a98b968ae5c32dd55a
      else 0x59d1a23342282179e810dff9238a97d07bd8602e3a1ba0efb5f519008541f257)"

definition fixture_HeaderHash :: "CPureBlockHeader \<Rightarrow> uint256" where
  "fixture_HeaderHash h =
     (if nTime h = 1531470713
      then 0xe5062d76e5f50c42f493826ac9920b63a8def2626fd70a5cec707ec47a4c4651
      else if nTime h = 1530623291
      then 0x5195fc01d0e23d70d1f929f21ec55f47e1c6ea1e66fae98ee44cbbc994509bba
      else if nTime h = 1601286749
      then 0x8d5223e215a03970bb3d3bc511a0d9a003e03cbc973289611ca6e0e617f57ccf
      else 0x6f750b36d22f1dc3d0a6e483af45301022646dfc3b3ba2187865f5a7d6d83ab1)"

definition fixture_uint256_byte :: "uint256 \<Rightarrow> nat \<Rightarrow> byte" where
  "fixture_uint256_byte h i = word_of_nat (unat h div 256 ^ i mod 256)"

definition fixture_HashWriter :: "byte list \<Rightarrow> uint256" where
  "fixture_HashWriter b = 0x40cf030a"

definition fixture_checkProofOfWork :: "PowData \<Rightarrow> CPureBlockHeader \<Rightarrow> Consensus_Params \<Rightarrow> bool" where
  "fixture_checkProofOfWork p h consensus \<longleftrightarrow> nNonce h = 0"

definition fixture_ext :: externals where
  "fixture_ext =
     \<lparr>COIN = 100000000,
      uint160S = fixture_uint160S,
      TxHash = fixture_TxHash,
      MerkleRoot_other = (\<lambda>leaves. 0),
      HeaderHash = fixture_HeaderHash,
      HashWriter = fixture_HashWriter,
      uint256_byte = fixture_uint256_byte,
      initFakeHeader = (\<lambda>block. CPureBlockHeader_null),
      checkProofOfWork = fixture_checkProofOfWork,
      GetTime = 1531470713\<rparr>"

text \<open>
  A second environment: the same constant and hash functions, a later clock and another
  merkle function for the trees that are not one leaf.
\<close>

definition fixture_ext_later :: externals where
  "fixture_ext_later =
     fixture_ext\<lparr>GetTime := 1700000000, MerkleRoot_other := (\<lambda>leaves. 1)\<rparr>"

definition nonce_is :: "uint32_t \<Rightarrow> CPureBlockHeader \<Rightarrow> bool" where
  "nonce_is k h \<longleftrightarrow> nNonce h = k"

chapter \<open>The properties\<close>

section \<open>Arithmetic of the signed operations\<close>

lemma int64_rem_one: "int64_rem a 1 = 0"
  by (simp add: int64_rem_def signed_modulo_int_def)

lemma int64_quot_one: "int64_quot a 1 = a"
proof -
  have "sgn (sint a) * \<bar>sint a\<bar> = sint a"
    by (simp add: sgn_mult_abs)
  then show ?thesis
    by (simp add: int64_quot_def signed_divide_int_def)
qed

lemma sint_word_of_int_64:
  "- (2 ^ 63) \<le> v \<Longrightarrow> v < 2 ^ 63 \<Longrightarrow> sint (word_of_int v :: int64_t) = v"
  by (simp add: sint_sbintrunc' signed_take_bit_int_eq_self)

lemma smod_nonneg: "0 \<le> k \<Longrightarrow> 0 < l \<Longrightarrow> k smod l = k mod (l::int)"
  by (cases "k = 0") (simp_all add: signed_modulo_int_def)

lemma sdiv_nonneg: "0 \<le> k \<Longrightarrow> 0 < l \<Longrightarrow> k sdiv l = k div (l::int)"
  by (cases "k = 0") (simp_all add: signed_divide_int_def)

section \<open>The accumulation computes the closed form\<close>

lemma denom_spec_Nil: "denom_spec [] = 0"
  by (simp add: denom_spec_def)

lemma denom_spec_Cons: "denom_spec (x # xs) = prod_list xs + x * denom_spec xs"
proof -
  have "[0..<length (x # xs)] = 0 # map Suc [0..<length xs]"
    by (simp only: length_Cons upt_conv_Cons [OF zero_less_Suc] map_Suc_upt)
  then show ?thesis
    by (simp add: denom_spec_def sum_list_const_mult [symmetric] comp_def mult.assoc
        del: upt_Suc)
qed

text \<open>
  The loop invariant, in the 64-bit ring: started from any pair, the loop multiplies the
  numerator by the product of the spacings and adds to the scaled denominator the
  numerator times the sum of the products that leave one spacing out.
\<close>

lemma accumulate_spec:
  "accumulate xs (n, d) = (n * prod_list xs, d * prod_list xs + n * denom_spec xs)"
  by (induction xs arbitrary: n d)
     (simp_all add: denom_spec_Nil denom_spec_Cons algebra_simps)

lemma denom_spec_mset:
  "denom_spec xs = (\<Sum>x\<in>#mset xs. prod_mset (mset xs - {#x#}))"
proof (induction xs)
  case Nil
  then show ?case by (simp add: denom_spec_Nil)
next
  case (Cons a xs)
  have "(\<Sum>x\<in>#mset xs. prod_mset (add_mset a (mset xs) - {#x#}))
      = (\<Sum>x\<in>#mset xs. a * prod_mset (mset xs - {#x#}))"
    by (rule arg_cong [where f = sum_mset], rule image_mset_cong) simp
  then show ?case
    using Cons by (simp add: denom_spec_Cons sum_mset_distrib_left prod_mset_prod_list)
qed

lemma denom_spec_perm: "mset xs = mset ys \<Longrightarrow> denom_spec xs = denom_spec ys"
  by (simp add: denom_spec_mset)

lemma prod_list_perm:
  "mset xs = mset ys \<Longrightarrow> prod_list xs = prod_list (ys :: 'a :: comm_monoid_mult list)"
  by (metis prod_mset_prod_list)

lemma word_of_int_prod_list:
  "word_of_int (prod_list is) = (prod_list (map word_of_int is) :: 'a :: len word)"
  by (induction "is") (simp_all add: wi_hom_syms)

lemma word_of_int_denom_spec:
  "word_of_int (denom_spec is) = (denom_spec (map word_of_int is) :: 'a :: len word)"
  by (induction "is")
     (simp_all add: denom_spec_Nil denom_spec_Cons wi_hom_syms word_of_int_prod_list)

lemma map_word_of_int_sint: "map (word_of_int \<circ> sint) xs = (xs :: 'a :: len word list)"
  by (induction xs) simp_all

lemma prod_list_pos: "\<forall>s\<in>set ss. 0 < s \<Longrightarrow> 0 < prod_list (ss :: int list)"
  by (induction ss) simp_all

lemma denom_spec_pos:
  "\<forall>s\<in>set ss. 0 < s \<Longrightarrow> ss \<noteq> [] \<Longrightarrow> 0 < denom_spec (ss :: int list)"
proof (induction ss)
  case Nil
  then show ?case by simp
next
  case (Cons a ss)
  show ?case
  proof (cases "ss = []")
    case True
    then show ?thesis by (simp add: denom_spec_Cons denom_spec_Nil)
  next
    case False
    with Cons have "0 < denom_spec ss" by simp
    moreover have "0 < prod_list ss" using Cons.prems by (simp add: prod_list_pos)
    moreover have "0 < a" using Cons.prems by simp
    ultimately show ?thesis by (simp add: denom_spec_Cons add_pos_pos)
  qed
qed

lemma harmonic:
  "\<forall>s\<in>set ss. s \<noteq> 0 \<Longrightarrow>
   real_of_int (denom_spec ss) = real_of_int (prod_list ss) * (\<Sum>s\<leftarrow>ss. 1 / real_of_int s)"
  by (induction ss) (simp_all add: denom_spec_Nil denom_spec_Cons algebra_simps)

lemma harmonic_quotient:
  assumes "\<forall>s\<in>set ss. 0 < s"
  shows "real_of_int (prod_list ss) / real_of_int (denom_spec ss)
           = 1 / (\<Sum>s\<leftarrow>ss. 1 / real_of_int s)"
proof -
  have nz: "\<forall>s\<in>set ss. s \<noteq> 0" using assms by auto
  have P: "0 < prod_list ss" using assms by (rule prod_list_pos)
  have "real_of_int (denom_spec ss)
          = real_of_int (prod_list ss) * (\<Sum>s\<leftarrow>ss. 1 / real_of_int s)"
    using nz by (rule harmonic)
  then show ?thesis using P by simp
qed

text \<open>
  The function in terms of the closed form, when the two integers fit 64 signed bits:
  the first assertion passes, the second one passes exactly when the denominator divides
  the numerator, and the value returned is the quotient.
\<close>

lemma AvgTargetSpacing_of_spec:
  fixes xs :: "int64_t list"
  defines "P \<equiv> prod_list (map sint xs)" and "D \<equiv> denom_spec (map sint xs)"
  assumes D: "0 < D" "D < 2 ^ 63" and P: "0 \<le> P" "P < 2 ^ 63"
  shows "AvgTargetSpacing_of xs =
    (if D dvd P then Inr (word_of_int (P div D)) else Inl Assert_numer_divisible)"
proof -
  have acc: "accumulate xs (1, 0) = (word_of_int P, word_of_int D)"
    by (simp add: accumulate_spec P_def D_def word_of_int_prod_list word_of_int_denom_spec
        map_word_of_int_sint)
  have sD: "sint (word_of_int D :: int64_t) = D"
    using D by (intro sint_word_of_int_64) simp_all
  have sP: "sint (word_of_int P :: int64_t) = P"
    using P by (intro sint_word_of_int_64) simp_all
  have pos: "0 <s (word_of_int D :: int64_t)"
    using D by (simp add: word_sless_alt sD)
  have md: "P mod D < D"
    using D(1) by simp
  have m: "0 \<le> P mod D" "P mod D < 2 ^ 63"
  proof -
    show "0 \<le> P mod D"
      using D(1) by simp
    show "P mod D < 2 ^ 63"
      using md D(2) by linarith
  qed
  have "sint (word_of_int (P mod D) :: int64_t) = P mod D"
    using m by (intro sint_word_of_int_64) simp_all
  then have z: "(word_of_int (P mod D) :: int64_t) = 0 \<longleftrightarrow> D dvd P"
    by (metis dvd_eq_mod_eq_0 sint_0 word_of_int_0)
  show ?thesis
    using D P by (simp add: AvgTargetSpacing_of_def acc pos int64_rem_def int64_quot_def sD sP
        smod_nonneg sdiv_nonneg z)
qed

section \<open>AvgTargetSpacing: the value returned\<close>

text \<open>
  Claim C1, as amended. Let \<open>s\<^sub>1, \<dots>, s\<^sub>n\<close> be the spacings that \<^verbatim>\<open>GetTargetSpacing\<close> returns
  for the algorithms of the loop, all positive, with their product and the sum of the
  products that leave one out both below \<open>2\<^sup>6\<^sup>3\<close>. Then the denominator is strictly positive,
  so the first assertion holds; \<^verbatim>\<open>AvgTargetSpacing\<close> returns the product divided by that
  sum exactly when the sum divides the product, and otherwise the assertion
  \<^verbatim>\<open>numer % denom == 0\<close> fails; and the rational quotient of the two is \<open>1 / \<Sum> 1/s\<^sub>i\<close>.
\<close>

theorem AvgTargetSpacing_quotient:
  assumes pos: "\<forall>s\<in>set (target_spacings params height). 0 < s"
    and fit: "prod_list (target_spacings params height) < 2 ^ 63"
             "denom_spec (target_spacings params height) < 2 ^ 63"
  shows "0 < denom_spec (target_spacings params height)
       \<and> AvgTargetSpacing params height =
           (if denom_spec (target_spacings params height)
                 dvd prod_list (target_spacings params height)
            then Inr (word_of_int (prod_list (target_spacings params height)
                                     div denom_spec (target_spacings params height)))
            else Inl Assert_numer_divisible)
       \<and> real_of_int (prod_list (target_spacings params height))
             / real_of_int (denom_spec (target_spacings params height))
           = 1 / (\<Sum>s\<leftarrow>target_spacings params height. 1 / real_of_int s)"
proof -
  define ss where "ss = target_spacings params height"
  have ne: "ss \<noteq> []"
    by (simp add: ss_def target_spacings_def AvgTargetSpacing_algos_def)
  have pos': "\<forall>s\<in>set ss. 0 < s"
    using pos by (simp add: ss_def)
  have D: "0 < denom_spec ss"
    using pos' ne by (rule denom_spec_pos)
  have P: "0 \<le> prod_list ss"
    using prod_list_pos [OF pos'] by simp
  have ss: "ss = map sint (map (\<lambda>algo. GetTargetSpacing params algo height)
                              AvgTargetSpacing_algos)"
    by (simp add: ss_def target_spacings_def comp_def)
  have fit': "prod_list ss < 2 ^ 63" "denom_spec ss < 2 ^ 63"
    using fit by (simp_all add: ss_def)
  have "AvgTargetSpacing params height =
          (if denom_spec ss dvd prod_list ss
           then Inr (word_of_int (prod_list ss div denom_spec ss))
           else Inl Assert_numer_divisible)"
    unfolding AvgTargetSpacing_def ss
    by (rule AvgTargetSpacing_of_spec) (use D P fit' in \<open>simp_all only: ss [symmetric]\<close>)
  with D harmonic_quotient [OF pos'] show ?thesis
    by (simp add: ss_def)
qed

text \<open>
  The theorem at spacings 120 and 40 (four blocks every two minutes, three of one
  algorithm and one of the other): the result is 30.
\<close>

theorem AvgTargetSpacing_quotient_witness:
  "AvgTargetSpacing \<lparr>GetTargetSpacing = spacing_120_40\<rparr> 7 = Inr 30"
proof -
  have "\<forall>s\<in>set (target_spacings \<lparr>GetTargetSpacing = spacing_120_40\<rparr> 7). 0 < s"
    by (simp add: target_spacings_def AvgTargetSpacing_algos_def)
  from AvgTargetSpacing_quotient [OF this] show ?thesis
    by (simp add: target_spacings_def AvgTargetSpacing_algos_def denom_spec_def)
qed

text \<open>
  Claim C1 as first stated fails: with the positive spacings 2 and 3 the loop ends with
  \<open>numer = 6\<close> and \<open>denom = 5\<close>, and the assertion \<^verbatim>\<open>numer % denom == 0\<close> fails.
\<close>

theorem AvgTargetSpacing_quotient_counterexample:
  "0 <s spacing_2_3 SHA256D 0 \<and> 0 <s spacing_2_3 NEOSCRYPT 0
   \<and> AvgTargetSpacing \<lparr>GetTargetSpacing = spacing_2_3\<rparr> 0 = Inl Assert_numer_divisible"
  by (simp add: AvgTargetSpacing_def AvgTargetSpacing_algos_def AvgTargetSpacing_of_def
      int64_rem_def signed_modulo_int_def word_sless_alt)

section \<open>AvgTargetSpacing: two equal spacings\<close>

text \<open>
  Claim C3, as amended. When both algorithms have the same positive spacing \<open>s\<close>, with
  \<open>s * s\<close> below \<open>2\<^sup>6\<^sup>3\<close>, \<^verbatim>\<open>AvgTargetSpacing\<close> returns \<open>s / 2\<close> if \<open>s\<close> is even, and the
  assertion \<^verbatim>\<open>numer % denom == 0\<close> fails if \<open>s\<close> is odd.
\<close>

theorem AvgTargetSpacing_equal_spacings:
  assumes same: "GetTargetSpacing params SHA256D height = s"
                "GetTargetSpacing params NEOSCRYPT height = s"
    and pos: "0 < sint s" and fit: "sint s * sint s < 2 ^ 63"
  shows "AvgTargetSpacing params height =
           (if even (sint s) then Inr (word_of_int (sint s div 2))
            else Inl Assert_numer_divisible)"
proof -
  define k where "k = sint s"
  have k: "0 < k" "k * k < 2 ^ 63" using pos fit by (simp_all add: k_def)
  have twok: "2 * k < 2 ^ 63"
  proof (cases "k = 1")
    case True then show ?thesis by simp
  next
    case False
    then have "2 \<le> k" using k(1) by simp
    then have "2 * k \<le> k * k" by (simp add: mult_right_mono)
    with k(2) show ?thesis by simp
  qed
  have dvd: "2 * k dvd k * k \<longleftrightarrow> even k"
    using k(1) by (simp add: mult.commute)
  have quot: "k * k div (2 * k) = k div 2"
    using k(1) by (simp add: mult.commute)
  have "AvgTargetSpacing_of [s, s] =
          (if denom_spec (map sint [s, s]) dvd prod_list (map sint [s, s])
           then Inr (word_of_int (prod_list (map sint [s, s]) div denom_spec (map sint [s, s])))
           else Inl Assert_numer_divisible)"
    by (rule AvgTargetSpacing_of_spec)
       (use k twok in \<open>simp_all add: denom_spec_Cons denom_spec_Nil k_def [symmetric]\<close>)
  then show ?thesis
    using dvd quot
    by (simp add: AvgTargetSpacing_def AvgTargetSpacing_algos_def same denom_spec_Cons
        denom_spec_Nil k_def [symmetric])
qed

text \<open>The theorem at the spacings 150 and 150: the result is 75.\<close>

theorem AvgTargetSpacing_equal_spacings_witness:
  "AvgTargetSpacing \<lparr>GetTargetSpacing = same_spacing 150\<rparr> 0 = Inr 75"
  using AvgTargetSpacing_equal_spacings
    [of "\<lparr>GetTargetSpacing = same_spacing 150\<rparr>" 0 150]
  by (simp add: same_spacing_def)

text \<open>
  Claim C3 as first stated fails at the positive spacing 3: the loop ends with
  \<open>numer = 9\<close> and \<open>denom = 6\<close>, and the assertion \<^verbatim>\<open>numer % denom == 0\<close> fails.
\<close>

theorem AvgTargetSpacing_equal_spacings_counterexample:
  "0 <s (3 :: int64_t)
   \<and> AvgTargetSpacing \<lparr>GetTargetSpacing = same_spacing 3\<rparr> 0 = Inl Assert_numer_divisible"
  by (simp add: AvgTargetSpacing_def AvgTargetSpacing_algos_def AvgTargetSpacing_of_def
      same_spacing_def int64_rem_def signed_modulo_int_def word_sless_alt)

section \<open>AvgTargetSpacing: a single algorithm\<close>

text \<open>
  Claim C4. Run over the one-element list \<open>[s]\<close>, the accumulation leaves \<open>numer = s\<close> and
  \<open>denom = 1\<close>, both assertions pass and the function returns \<open>s\<close> itself. This holds
  for every 64-bit \<open>s\<close>, so in particular for every positive one.
\<close>

theorem AvgTargetSpacing_of_single: "AvgTargetSpacing_of [s] = Inr s"
  by (simp add: AvgTargetSpacing_of_def int64_rem_one int64_quot_one word_sless_alt)

section \<open>AvgTargetSpacing: order of the algorithms\<close>

text \<open>
  Claim C5. On a permutation of a list of spacings the loop ends with the same numerator
  and the same denominator, hence the function gives the same result: the same value, or
  the same failed assertion. Nothing is assumed of the spacings, so this holds for
  the non-empty lists of positive ones.
\<close>

theorem AvgTargetSpacing_of_permutation:
  assumes "mset ys = mset xs"
  shows "accumulate ys (1, 0) = accumulate xs (1, 0)
       \<and> AvgTargetSpacing_of ys = AvgTargetSpacing_of xs"
proof -
  have "prod_list ys = prod_list xs"
    using assms by (rule prod_list_perm)
  moreover have "denom_spec ys = denom_spec xs"
    using assms by (rule denom_spec_perm)
  ultimately have "accumulate ys (1, 0) = accumulate xs (1, 0)"
    by (simp add: accumulate_spec)
  then show ?thesis
    by (simp add: AvgTargetSpacing_of_def)
qed

text \<open>The theorem at the spacings 2, 3, 6 and their rotation 6, 2, 3.\<close>

theorem AvgTargetSpacing_of_permutation_witness:
  "mset [6, 2, 3 :: int64_t] = mset [2, 3, 6]
   \<and> accumulate [6, 2, 3] (1, 0) = (36, 36)
   \<and> accumulate [2, 3, 6] (1, 0) = (36, 36)
   \<and> AvgTargetSpacing_of [6, 2, 3] = AvgTargetSpacing_of [2, 3, 6]"
proof -
  have m: "mset [6, 2, 3 :: int64_t] = mset [2, 3, 6]"
    by (simp add: add_mset_commute)
  from AvgTargetSpacing_of_permutation [OF m] m show ?thesis
    by simp
qed

section \<open>The genesis block\<close>

text \<open>
  The block that the overload with the scripts returns, field by field.
\<close>

lemma CreateGenesisBlock_scripts_eq:
  "CreateGenesisBlock_scripts ext inS outS t n b v reward =
     (let tx = \<lparr>version = 1, vin = [\<lparr>scriptSig = inS\<rparr>],
                vout = [\<lparr>nValue = reward, scriptPubKey = outS\<rparr>]\<rparr>;
          hdr = \<lparr>nVersion = v, hashPrevBlock = 0, hashMerkleRoot = TxHash ext tx,
                 nTime = t, nBits = 0, nNonce = 0\<rparr>
      in \<lparr>nVersion = v, hashPrevBlock = 0, hashMerkleRoot = TxHash ext tx,
          nTime = t, nBits = 0, nNonce = 0,
          pow = \<lparr>algo = Some NEOSCRYPT, bits = b,
                 fakeHeader = Some \<lparr>nVersion = 0, hashPrevBlock = 0,
                                    hashMerkleRoot = HeaderHash ext hdr,
                                    nTime = 0, nBits = 0, nNonce = n\<rparr>\<rparr>,
          vtx = [tx]\<rparr>)"
  by (simp add: CreateGenesisBlock_scripts_def Let_def CBlock_null_def BlockMerkleRoot_def
      GetHash_def CPureBlockHeader.truncate_def PowData_null_def CPureBlockHeader_null_def)

text \<open>
  Claim C6. The block that \<^verbatim>\<open>CreateGenesisBlock\<close> returns has exactly one transaction, its
  previous-block hash is the null hash, and its merkle root is the hash of that one
  transaction.
\<close>

theorem CreateGenesisBlock_one_transaction:
  "\<exists>tx. vtx (CreateGenesisBlock ext t n b msg h) = [tx]
      \<and> hashPrevBlock (CreateGenesisBlock ext t n b msg h) = 0
      \<and> hashMerkleRoot (CreateGenesisBlock ext t n b msg h) = TxHash ext tx"
  by (simp add: CreateGenesisBlock_def CreateGenesisBlock_scripts_eq Let_def)

text \<open>
  The hash and the merkle root of the block that \<^verbatim>\<open>CreateGenesisBlock\<close> returns, as
  functions of the arguments: the merkle root is the hash of the one transaction, built
  from the message, the reversed premine hash and \<^verbatim>\<open>premineAmount\<close>; the block hash is the
  hash of the header with version 1, the null previous hash, that merkle root, the time,
  and bits and nonce 0.
\<close>

lemma CreateGenesisBlock_hashes:
  "hashMerkleRoot (CreateGenesisBlock ext t n b msg h)
     = TxHash ext
         \<lparr>version = 1,
          vin = [\<lparr>scriptSig = [PushData (map (\<lambda>c. word_of_nat (of_char c)) msg)]\<rparr>],
          vout = [\<lparr>nValue = 222222222 * COIN ext,
                   scriptPubKey = [Opcode OP_HASH160, PushData (rev h), Opcode OP_EQUAL]\<rparr>]\<rparr>
   \<and> GetHash ext (CreateGenesisBlock ext t n b msg h)
     = HeaderHash ext
         \<lparr>nVersion = 1, hashPrevBlock = 0,
          hashMerkleRoot = hashMerkleRoot (CreateGenesisBlock ext t n b msg h),
          nTime = t, nBits = 0, nNonce = 0\<rparr>"
  by (simp add: CreateGenesisBlock_def CreateGenesisBlock_scripts_eq Let_def GetHash_def
      CPureBlockHeader.truncate_def CScript_op_def CScript_data_def premineAmount_def)

text \<open>
  Claim C7. Two invocations of \<^verbatim>\<open>CreateGenesisBlock\<close> are two environments: they share the
  code, that is the constant \<^verbatim>\<open>COIN\<close> and the two hash functions, and may differ in
  everything else, the clock and the other collaborators. With the same time, nonce, bits,
  message and premine hash, the two blocks returned have the same hash and the same merkle
  root, and these are the values that the arguments determine: the merkle root is the hash
  of the one transaction built from the message and the premine hash, the block hash is
  the hash of the header built from the time and that merkle root. So the function reads
  its arguments, the constant and the hash functions, and neither the clock nor anything
  else of the environment.
\<close>

theorem CreateGenesisBlock_deterministic:
  assumes code: "COIN ext1 = COIN ext2" "TxHash ext1 = TxHash ext2"
                "HeaderHash ext1 = HeaderHash ext2"
    and inputs: "t1 = t2" "n1 = n2" "b1 = b2" "msg1 = msg2" "h1 = h2"
  shows "GetHash ext1 (CreateGenesisBlock ext1 t1 n1 b1 msg1 h1)
           = GetHash ext2 (CreateGenesisBlock ext2 t2 n2 b2 msg2 h2)
       \<and> hashMerkleRoot (CreateGenesisBlock ext1 t1 n1 b1 msg1 h1)
           = hashMerkleRoot (CreateGenesisBlock ext2 t2 n2 b2 msg2 h2)
       \<and> hashMerkleRoot (CreateGenesisBlock ext1 t1 n1 b1 msg1 h1)
           = TxHash ext1
               \<lparr>version = 1,
                vin = [\<lparr>scriptSig = [PushData (map (\<lambda>c. word_of_nat (of_char c)) msg1)]\<rparr>],
                vout = [\<lparr>nValue = 222222222 * COIN ext1,
                         scriptPubKey = [Opcode OP_HASH160, PushData (rev h1),
                                         Opcode OP_EQUAL]\<rparr>]\<rparr>
       \<and> GetHash ext1 (CreateGenesisBlock ext1 t1 n1 b1 msg1 h1)
           = HeaderHash ext1
               \<lparr>nVersion = 1, hashPrevBlock = 0,
                hashMerkleRoot = hashMerkleRoot (CreateGenesisBlock ext1 t1 n1 b1 msg1 h1),
                nTime = t1, nBits = 0, nNonce = 0\<rparr>"
proof -
  note one = CreateGenesisBlock_hashes [of ext1 t1 n1 b1 msg1 h1]
  note two = CreateGenesisBlock_hashes [of ext2 t2 n2 b2 msg2 h2]
  have root: "hashMerkleRoot (CreateGenesisBlock ext1 t1 n1 b1 msg1 h1)
                = hashMerkleRoot (CreateGenesisBlock ext2 t2 n2 b2 msg2 h2)"
    using one two code inputs by simp
  have "GetHash ext1 (CreateGenesisBlock ext1 t1 n1 b1 msg1 h1)
          = GetHash ext2 (CreateGenesisBlock ext2 t2 n2 b2 msg2 h2)"
    using one two code inputs root by simp
  with root one show ?thesis
    by simp
qed

text \<open>
  The theorem at the literals of the main network, in two environments with different
  clocks: both invocations give the same hash and the same merkle root.
\<close>

theorem CreateGenesisBlock_deterministic_witness:
  "GetTime fixture_ext \<noteq> GetTime fixture_ext_later
   \<and> GetHash fixture_ext (CreateGenesisBlock fixture_ext 1531470713 482087 0x1e0ffff0
         pszTimestampMainnet (fixture_uint160S hexPremineAddressMainnet))
       = GetHash fixture_ext_later (CreateGenesisBlock fixture_ext_later 1531470713 482087
           0x1e0ffff0 pszTimestampMainnet (fixture_uint160S hexPremineAddressMainnet))
   \<and> hashMerkleRoot (CreateGenesisBlock fixture_ext 1531470713 482087 0x1e0ffff0
         pszTimestampMainnet (fixture_uint160S hexPremineAddressMainnet))
       = hashMerkleRoot (CreateGenesisBlock fixture_ext_later 1531470713 482087 0x1e0ffff0
           pszTimestampMainnet (fixture_uint160S hexPremineAddressMainnet))"
proof -
  have code: "COIN fixture_ext = COIN fixture_ext_later"
    "TxHash fixture_ext = TxHash fixture_ext_later"
    "HeaderHash fixture_ext = HeaderHash fixture_ext_later"
    by (simp_all add: fixture_ext_later_def)
  have clock: "GetTime fixture_ext \<noteq> GetTime fixture_ext_later"
    by (simp add: fixture_ext_later_def fixture_ext_def)
  from CreateGenesisBlock_deterministic [OF code refl refl refl refl refl] clock
  show ?thesis by blast
qed

text \<open>
  By contrast \<^verbatim>\<open>MineGenesisBlock\<close> reads the clock: on the same block, the two environments
  give blocks with different times.
\<close>

lemma MineGenesisBlock_reads_clock:
  "(case MineGenesisBlock fixture_ext CBlock_null consensus of
      Inl e \<Rightarrow> False | Inr (block, out) \<Rightarrow> nTime block = 1531470713)
   \<and> (case MineGenesisBlock fixture_ext_later CBlock_null consensus of
      Inl e \<Rightarrow> False | Inr (block, out) \<Rightarrow> nTime block = 1700000000)"
  by (simp add: MineGenesisBlock_def MineGenesisBlock_loop.simps Let_def
      fixture_ext_later_def fixture_ext_def fixture_checkProofOfWork_def
      CBlock_null_def CPureBlockHeader_null_def PowData_null_def)

text \<open>
  Claim C9. In the block that \<^verbatim>\<open>CreateGenesisBlock\<close> returns, the primary header has
  \<^verbatim>\<open>nNonce = 0\<close> and \<^verbatim>\<open>nBits = 0\<close> whatever the arguments are. The nonce is in the fake
  header, which is otherwise null and whose \<^verbatim>\<open>hashMerkleRoot\<close> is the hash of the block;
  the bits are in the proof-of-work data, whose core algorithm is \<^verbatim>\<open>NEOSCRYPT\<close>.
\<close>

theorem CreateGenesisBlock_nonce_and_bits:
  "nNonce (CreateGenesisBlock ext t n b msg h) = 0
   \<and> nBits (CreateGenesisBlock ext t n b msg h) = 0
   \<and> algo (pow (CreateGenesisBlock ext t n b msg h)) = Some NEOSCRYPT
   \<and> bits (pow (CreateGenesisBlock ext t n b msg h)) = b
   \<and> fakeHeader (pow (CreateGenesisBlock ext t n b msg h))
       = Some (CPureBlockHeader_null
                 \<lparr>nNonce := n,
                  hashMerkleRoot := GetHash ext (CreateGenesisBlock ext t n b msg h)\<rparr>)"
  by (simp add: CreateGenesisBlock_def CreateGenesisBlock_scripts_eq Let_def GetHash_def
      CPureBlockHeader.truncate_def CPureBlockHeader_null_def)

section \<open>The nonce search\<close>

lemma word32_succ_le: "(a :: uint32_t) < 0xFFFFFFFF \<Longrightarrow> a + 1 \<le> n \<longleftrightarrow> a \<le> n \<and> n \<noteq> a"
  by (auto simp: word_le_nat_alt word_less_nat_alt unat_word_ariths word_unat_eq_iff)

lemma word32_top: "\<not> (a :: uint32_t) < 0xFFFFFFFF \<Longrightarrow> a = 0xFFFFFFFF"
proof -
  assume "\<not> a < 0xFFFFFFFF"
  moreover have "unat a < 2 ^ 32"
    using unsigned_less [of a] by simp
  ultimately show ?thesis
    by (simp add: word_less_nat_alt word_unat_eq_iff)
qed

lemma word32_above_top: "(0xFFFFFFFF :: uint32_t) \<le> n \<Longrightarrow> n = 0xFFFFFFFF"
proof -
  assume "0xFFFFFFFF \<le> n"
  moreover have "unat n < 2 ^ 32"
    using unsigned_less [of n] by simp
  ultimately show ?thesis
    by (simp add: word_le_nat_alt word_unat_eq_iff)
qed

lemma MineGenesisBlock_loop_result:
  "case MineGenesisBlock_loop check h out of
     Inl e \<Rightarrow> e = Assert_nonce_below_max
               \<and> (\<forall>n. nNonce h \<le> n \<longrightarrow> \<not> check (h\<lparr>nNonce := n\<rparr>))
   | Inr (h', out') \<Rightarrow> check h' \<and> nNonce h \<le> nNonce h' \<and> h' = h\<lparr>nNonce := nNonce h'\<rparr>
               \<and> (\<forall>n. nNonce h \<le> n \<and> n < nNonce h' \<longrightarrow> \<not> check (h\<lparr>nNonce := n\<rparr>))"
proof (induction check h out rule: MineGenesisBlock_loop.induct)
  case (1 check h out)
  show ?case
  proof (cases "check h")
    case True
    then show ?thesis
      by (subst MineGenesisBlock_loop.simps) (auto simp: leD)
  next
    case nc: False
    show ?thesis
    proof (cases "nNonce h < 0xFFFFFFFF")
      case False
      then have top: "nNonce h = 0xFFFFFFFF"
        by (rule word32_top)
      have "\<And>n. nNonce h \<le> n \<Longrightarrow> n = nNonce h"
        unfolding top by (rule word32_above_top)
      moreover have "h\<lparr>nNonce := nNonce h\<rparr> = h"
        by simp
      ultimately have "\<forall>n. nNonce h \<le> n \<longrightarrow> \<not> check (h\<lparr>nNonce := n\<rparr>)"
        using nc by metis
      then show ?thesis
        using nc False by (subst MineGenesisBlock_loop.simps) simp
    next
      case lt: True
      define h1 where "h1 = h\<lparr>nNonce := nNonce h + 1\<rparr>"
      define out1 where "out1 = (if unat (nNonce h1) mod 1000 = 0
                    then out @ [Line_nNonce (nNonce h1)] else out)"
      have step: "MineGenesisBlock_loop check h out = MineGenesisBlock_loop check h1 out1"
        using nc lt by (subst MineGenesisBlock_loop.simps) (simp add: h1_def out1_def Let_def)
      have IH: "case MineGenesisBlock_loop check h1 out1 of
         Inl e \<Rightarrow> e = Assert_nonce_below_max
               \<and> (\<forall>n. nNonce h1 \<le> n \<longrightarrow> \<not> check (h1\<lparr>nNonce := n\<rparr>))
       | Inr (h', out') \<Rightarrow> check h' \<and> nNonce h1 \<le> nNonce h' \<and> h' = h1\<lparr>nNonce := nNonce h'\<rparr>
               \<and> (\<forall>n. nNonce h1 \<le> n \<and> n < nNonce h' \<longrightarrow> \<not> check (h1\<lparr>nNonce := n\<rparr>))"
        using "1.IH" [OF nc _ h1_def out1_def] lt by simp
      have n1: "nNonce h1 = nNonce h + 1" by (simp add: h1_def)
      have upd: "\<And>n. h1\<lparr>nNonce := n\<rparr> = h\<lparr>nNonce := n\<rparr>" by (simp add: h1_def)
      have le: "\<And>n. nNonce h1 \<le> n \<longleftrightarrow> nNonce h \<le> n \<and> n \<noteq> nNonce h"
        unfolding n1 using lt by (rule word32_succ_le)
      have self: "h\<lparr>nNonce := nNonce h\<rparr> = h" by simp
      show ?thesis
      proof (cases "MineGenesisBlock_loop check h1 out1")
        case (Inl e)
        with IH have "e = Assert_nonce_below_max"
          and "\<forall>n. nNonce h1 \<le> n \<longrightarrow> \<not> check (h\<lparr>nNonce := n\<rparr>)"
          by (simp_all add: upd)
        then show ?thesis
          using nc self by (auto simp: step Inl le)
      next
        case (Inr r)
        obtain h' out' where r: "r = (h', out')" by (cases r)
        from IH Inr r have f: "check h'" "nNonce h1 \<le> nNonce h'" "h' = h\<lparr>nNonce := nNonce h'\<rparr>"
          "\<forall>n. nNonce h1 \<le> n \<and> n < nNonce h' \<longrightarrow> \<not> check (h\<lparr>nNonce := n\<rparr>)"
          by (simp_all add: upd)
        then show ?thesis
          using nc self by (auto simp: step Inr r le)
      qed
    qed
  qed
qed

text \<open>
  Claim C8. The search loop, started at a fake header \<open>h\<close>, tries the nonces from that of
  \<open>h\<close> upwards and never a smaller one. If no nonce from there up to the maximum passes the
  check, the loop ends in the failed assertion \<^verbatim>\<open>nNonce < max\<close>, also when a smaller nonce
  would pass; it fails in no other way; and when it succeeds, the nonce found is the
  least one from that of \<open>h\<close> upwards that passes, in the same header. The loop is a total
  function: it always ends in one of the two ways.
\<close>

theorem MineGenesisBlock_loop_no_wrap:
  "((\<forall>n. nNonce h \<le> n \<longrightarrow> \<not> check (h\<lparr>nNonce := n\<rparr>))
      \<longrightarrow> MineGenesisBlock_loop check h out = Inl Assert_nonce_below_max)
   \<and> (\<forall>e. MineGenesisBlock_loop check h out = Inl e
      \<longrightarrow> e = Assert_nonce_below_max \<and> (\<forall>n. nNonce h \<le> n \<longrightarrow> \<not> check (h\<lparr>nNonce := n\<rparr>)))
   \<and> (\<forall>h' out'. MineGenesisBlock_loop check h out = Inr (h', out')
      \<longrightarrow> check h' \<and> nNonce h \<le> nNonce h' \<and> h' = h\<lparr>nNonce := nNonce h'\<rparr>
          \<and> (\<forall>n. nNonce h \<le> n \<and> n < nNonce h' \<longrightarrow> \<not> check (h\<lparr>nNonce := n\<rparr>)))"
proof -
  note r = MineGenesisBlock_loop_result [where check = check and h = h and out = out]
  show ?thesis
  proof (cases "MineGenesisBlock_loop check h out")
    case (Inl e)
    with r show ?thesis by simp
  next
    case (Inr p)
    obtain h' out' where p: "p = (h', out')" by (cases p)
    from r Inr p have f: "check h'" "nNonce h \<le> nNonce h'" "h' = h\<lparr>nNonce := nNonce h'\<rparr>"
      "\<forall>n. nNonce h \<le> n \<and> n < nNonce h' \<longrightarrow> \<not> check (h\<lparr>nNonce := n\<rparr>)"
      by simp_all
    have "\<not> (\<forall>n. nNonce h \<le> n \<longrightarrow> \<not> check (h\<lparr>nNonce := n\<rparr>))"
      using f(1,2,3) by metis
    with f show ?thesis by (simp add: Inr p)
  qed
qed

text \<open>
  The theorem at a check that only the nonce 0 passes, started two below the maximum: the
  assertion fails, the nonce does not wrap to 0.
\<close>

theorem MineGenesisBlock_loop_no_wrap_witness:
  "MineGenesisBlock_loop (nonce_is 0) (CPureBlockHeader_null\<lparr>nNonce := 0xFFFFFFFE\<rparr>) []
     = Inl Assert_nonce_below_max"
proof -
  have "\<forall>n. nNonce (CPureBlockHeader_null\<lparr>nNonce := 0xFFFFFFFE\<rparr>) \<le> n \<longrightarrow>
          \<not> nonce_is 0 (CPureBlockHeader_null\<lparr>nNonce := 0xFFFFFFFE\<rparr>\<lparr>nNonce := n\<rparr>)"
    by (auto simp: nonce_is_def)
  with MineGenesisBlock_loop_no_wrap
    [of "CPureBlockHeader_null\<lparr>nNonce := 0xFFFFFFFE\<rparr>" "nonce_is 0" "[]"]
  show ?thesis by blast
qed

text \<open>
  \<^verbatim>\<open>MineGenesisBlock\<close> itself aborts only through that assertion.
\<close>

lemma MineGenesisBlock_abort:
  assumes "MineGenesisBlock ext block consensus = Inl e"
  shows "e = Assert_nonce_below_max"
proof -
  define block1 where "block1 = block\<lparr>nTime := ucast (GetTime ext)\<rparr>"
  define h0 where "h0 = initFakeHeader ext block1"
  define block2 where "block2 = block1\<lparr>pow := (pow block1)\<lparr>fakeHeader := Some h0\<rparr>\<rparr>"
  define check where
    "check = (\<lambda>h. checkProofOfWork ext ((pow block2)\<lparr>fakeHeader := Some h\<rparr>) h consensus)"
  have "MineGenesisBlock_loop check h0 [Line_Mining] = Inl e"
    using assms
    by (simp add: MineGenesisBlock_def Let_def block1_def h0_def block2_def check_def
        split: sum.splits prod.splits)
  with MineGenesisBlock_loop_result [where check = check and h = h0 and out = "[Line_Mining]"]
  show ?thesis by simp
qed

section \<open>GetNetworkForMagic\<close>

lemma first_match_None: "first_match message nets = None \<longleftrightarrow> message \<notin> snd ` set nets"
proof (induction message nets rule: first_match.induct)
  case (1 message)
  show ?case by simp
next
  case (2 message chain magic rest)
  show ?case
  proof (cases "message = magic")
    case True
    then show ?thesis by simp
  next
    case False
    with 2 show ?thesis by simp
  qed
qed

text \<open>
  Claim C10. When the five parameter sets can be constructed, \<^verbatim>\<open>GetNetworkForMagic\<close>
  returns the chain type of the first of main, testnet, testnet4, regtest and signet, in
  this order, whose message start equals the four bytes given, and it returns no value
  exactly when the bytes equal none of the five message starts. The message starts of the
  first four networks are the literals of the source.
\<close>

theorem GetNetworkForMagic_first_match:
  assumes "CMainParams ext = Inr mainnet"
    and "CTestNetParams ext = Inr testnet"
    and "CTestNet4Params ext = Inr testnet4"
    and "CRegTestParams ext RegTestOptions_default = Inr regtest"
    and "SigNetParams ext SigNetOptions_default = Inr signet"
  shows "GetNetworkForMagic ext message =
           Inr (first_match message
                  [(MAIN, pchMessageStart mainnet), (TESTNET, pchMessageStart testnet),
                   (TESTNET4, pchMessageStart testnet4), (REGTEST, pchMessageStart regtest),
                   (SIGNET, pchMessageStart signet)])
       \<and> (GetNetworkForMagic ext message = Inr None \<longleftrightarrow>
            message \<notin> {pchMessageStart mainnet, pchMessageStart testnet,
                         pchMessageStart testnet4, pchMessageStart regtest,
                         pchMessageStart signet})
       \<and> pchMessageStart mainnet = (0xcc, 0xbe, 0xb4, 0xfe)
       \<and> pchMessageStart testnet = (0xcc, 0xbf, 0xb5, 0xfe)
       \<and> pchMessageStart testnet4 = (0x1c, 0x16, 0x3f, 0x28)
       \<and> pchMessageStart regtest = (0xcc, 0xbf, 0xb5, 0xda)"
proof -
  have m: "pchMessageStart mainnet = (0xcc, 0xbe, 0xb4, 0xfe)"
    using assms(1) by (auto simp: CMainParams_def Let_def split: if_splits)
  have t: "pchMessageStart testnet = (0xcc, 0xbf, 0xb5, 0xfe)"
    using assms(2) by (auto simp: CTestNetParams_def Let_def split: if_splits)
  have t4: "pchMessageStart testnet4 = (0x1c, 0x16, 0x3f, 0x28)"
    using assms(3) by (auto simp: CTestNet4Params_def Let_def split: if_splits)
  have r: "pchMessageStart regtest = (0xcc, 0xbf, 0xb5, 0xda)"
    using assms(4) by (auto simp: CRegTestParams_def Let_def split: if_splits)
  have g: "GetNetworkForMagic ext message =
           Inr (first_match message
                  [(MAIN, pchMessageStart mainnet), (TESTNET, pchMessageStart testnet),
                   (TESTNET4, pchMessageStart testnet4), (REGTEST, pchMessageStart regtest),
                   (SIGNET, pchMessageStart signet)])"
    by (simp add: GetNetworkForMagic_def assms Let_def)
  have "GetNetworkForMagic ext message = Inr None \<longleftrightarrow>
            message \<notin> {pchMessageStart mainnet, pchMessageStart testnet,
                         pchMessageStart testnet4, pchMessageStart regtest,
                         pchMessageStart signet}"
    unfolding g by (simp only: sum.inject first_match_None) simp
  with g m t t4 r show ?thesis by blast
qed

text \<open>The five constructors succeed under the concrete collaborators.\<close>

lemmas genesis_unfold =
  CreateGenesisBlock_def CreateGenesisBlock_scripts_def Let_def
  CBlock_null_def BlockMerkleRoot_def GetHash_def CPureBlockHeader.truncate_def
  PowData_null_def CPureBlockHeader_null_def CScript_op_def CScript_data_def premineAmount_def

lemmas fixture_unfold =
  fixture_ext_def fixture_TxHash_def fixture_HeaderHash_def fixture_uint160S_def
  fixture_HashWriter_def fixture_uint256_byte_def
  pszTimestampMainnet_def pszTimestampTestnet_def
  hexPremineAddressRegtest_def hexPremineAddressMainnet_def

lemma fixture_CMainParams: "\<exists>p. CMainParams fixture_ext = Inr p"
  by (simp add: CMainParams_def genesis_unfold fixture_unfold)

lemma fixture_CTestNetParams: "\<exists>p. CTestNetParams fixture_ext = Inr p"
  by (simp add: CTestNetParams_def genesis_unfold fixture_unfold)

lemma fixture_CTestNet4Params: "\<exists>p. CTestNet4Params fixture_ext = Inr p"
  by (simp add: CTestNet4Params_def genesis_unfold fixture_unfold)

lemma fixture_CRegTestParams: "\<exists>p. CRegTestParams fixture_ext RegTestOptions_default = Inr p"
  by (simp add: CRegTestParams_def genesis_unfold fixture_unfold)

lemma fixture_SigNetParams:
  "\<exists>p. SigNetParams fixture_ext SigNetOptions_default = Inr p
       \<and> pchMessageStart p = (0x0a, 0x03, 0xcf, 0x40)"
  by (simp add: SigNetParams_def SigNetOptions_default_def genesis_unfold fixture_unfold)

text \<open>
  The theorem under the concrete collaborators: the message starts of the main network,
  of regtest and of signet are found, the message start of Bitcoin is not.
\<close>

theorem GetNetworkForMagic_first_match_witness:
  "GetNetworkForMagic fixture_ext (0xcc, 0xbe, 0xb4, 0xfe) = Inr (Some MAIN)
   \<and> GetNetworkForMagic fixture_ext (0xcc, 0xbf, 0xb5, 0xda) = Inr (Some REGTEST)
   \<and> GetNetworkForMagic fixture_ext (0x0a, 0x03, 0xcf, 0x40) = Inr (Some SIGNET)
   \<and> GetNetworkForMagic fixture_ext (0xf9, 0xbe, 0xb4, 0xd9) = Inr None"
proof -
  obtain mainnet where 1: "CMainParams fixture_ext = Inr mainnet"
    using fixture_CMainParams by blast
  obtain testnet where 2: "CTestNetParams fixture_ext = Inr testnet"
    using fixture_CTestNetParams by blast
  obtain testnet4 where 3: "CTestNet4Params fixture_ext = Inr testnet4"
    using fixture_CTestNet4Params by blast
  obtain regtest where 4: "CRegTestParams fixture_ext RegTestOptions_default = Inr regtest"
    using fixture_CRegTestParams by blast
  obtain signet where 5: "SigNetParams fixture_ext SigNetOptions_default = Inr signet"
    and s: "pchMessageStart signet = (0x0a, 0x03, 0xcf, 0x40)"
    using fixture_SigNetParams by blast
  note w = GetNetworkForMagic_first_match [OF 1 2 3 4 5]
  have a: "GetNetworkForMagic fixture_ext (0xcc, 0xbe, 0xb4, 0xfe) = Inr (Some MAIN)"
    using w [of "(0xcc, 0xbe, 0xb4, 0xfe)"] by simp
  have b: "GetNetworkForMagic fixture_ext (0xcc, 0xbf, 0xb5, 0xda) = Inr (Some REGTEST)"
    using w [of "(0xcc, 0xbf, 0xb5, 0xda)"] by simp
  have c: "GetNetworkForMagic fixture_ext (0x0a, 0x03, 0xcf, 0x40) = Inr (Some SIGNET)"
    using w [of "(0x0a, 0x03, 0xcf, 0x40)"] s by simp
  have d: "GetNetworkForMagic fixture_ext (0xf9, 0xbe, 0xb4, 0xd9) = Inr None"
    using w [of "(0xf9, 0xbe, 0xb4, 0xd9)"] s by simp
  from a b c d show ?thesis by simp
qed

end
